theory Spec2Isabelle
  imports Complex_Main "HOL-Library.Multiset"
begin

section \<open>Numbers and errors of the notebooks\<close>

text \<open>
  The notebooks compute with Python floats and with NumPy and pandas values. The
  embedding idealises floating-point arithmetic to exact real arithmetic (no rounding,
  no overflow) and keeps what the code can observe beyond that:
  \<^item> a number supplied by a caller (a temperature, a content, a bound, a measurement)
    is a \<^typ>\<open>real\<close>;
  \<^item> a value produced by NumPy, pandas or SciPy may also be \<open>nan\<close> or infinite, so it
    is an \<open>npfloat\<close>; NumPy arithmetic never raises (the notebook silences its
    warnings), it yields \<open>nan\<close> or an infinity instead;
  \<^item> a division between plain Python numbers raises \<open>ZeroDivisionError\<close> at a zero
    divisor, and every \<open>raise\<close> of the source is an \<open>Inl\<close> value of the result.
  Signed zeros are not distinguished.
\<close>

datatype error =
    ZeroDivisionError
  | ValueError string
  | UnboundLocalError string
  | TypeError
  | LibraryError string

definition bind_err :: "error + 'a \<Rightarrow> ('a \<Rightarrow> error + 'b) \<Rightarrow> error + 'b" where
  "bind_err r k = (case r of Inl e \<Rightarrow> Inl e | Inr v \<Rightarrow> k v)"

definition py_truediv :: "real \<Rightarrow> real \<Rightarrow> error + real" where
  \<comment> \<open>\<open>a / b\<close> on Python numbers\<close>
  "py_truediv a b = (if b = 0 then Inl ZeroDivisionError else Inr (a / b))"

datatype npfloat = NaN | NInf | Fin real | PInf

fun np_neg :: "npfloat \<Rightarrow> npfloat" where
  "np_neg NaN = NaN"
| "np_neg NInf = PInf"
| "np_neg (Fin a) = Fin (- a)"
| "np_neg PInf = NInf"

fun np_add :: "npfloat \<Rightarrow> npfloat \<Rightarrow> npfloat" where
  "np_add NaN y = NaN"
| "np_add x NaN = NaN"
| "np_add (Fin a) (Fin b) = Fin (a + b)"
| "np_add PInf NInf = NaN"
| "np_add NInf PInf = NaN"
| "np_add PInf y = PInf"
| "np_add x PInf = PInf"
| "np_add NInf y = NInf"
| "np_add x NInf = NInf"

definition signed_inf :: "bool \<Rightarrow> npfloat" where
  \<comment> \<open>the infinity of the given sign (\<open>True\<close> is positive)\<close>
  "signed_inf pos = (if pos then PInf else NInf)"

fun np_mul :: "npfloat \<Rightarrow> npfloat \<Rightarrow> npfloat" where
  "np_mul NaN y = NaN"
| "np_mul x NaN = NaN"
| "np_mul (Fin a) (Fin b) = Fin (a * b)"
| "np_mul (Fin a) PInf = (if a = 0 then NaN else signed_inf (0 < a))"
| "np_mul (Fin a) NInf = (if a = 0 then NaN else signed_inf (a < 0))"
| "np_mul PInf (Fin b) = (if b = 0 then NaN else signed_inf (0 < b))"
| "np_mul NInf (Fin b) = (if b = 0 then NaN else signed_inf (b < 0))"
| "np_mul PInf PInf = PInf"
| "np_mul NInf NInf = PInf"
| "np_mul PInf NInf = NInf"
| "np_mul NInf PInf = NInf"

fun np_div :: "npfloat \<Rightarrow> npfloat \<Rightarrow> npfloat" where
  "np_div NaN y = NaN"
| "np_div x NaN = NaN"
| "np_div (Fin a) (Fin b) =
     (if b = 0 then (if a = 0 then NaN else signed_inf (0 < a)) else Fin (a / b))"
| "np_div (Fin a) PInf = Fin 0"
| "np_div (Fin a) NInf = Fin 0"
| "np_div PInf (Fin b) = signed_inf (0 \<le> b)"
| "np_div NInf (Fin b) = signed_inf (b < 0)"
| "np_div PInf PInf = NaN"
| "np_div PInf NInf = NaN"
| "np_div NInf PInf = NaN"
| "np_div NInf NInf = NaN"

instantiation npfloat :: "{zero, one, plus, minus, uminus, times, inverse, power}"
begin

definition zero_npfloat :: npfloat where
  "zero_npfloat = Fin 0"

definition one_npfloat :: npfloat where
  "one_npfloat = Fin 1"

definition plus_npfloat :: "npfloat \<Rightarrow> npfloat \<Rightarrow> npfloat" where
  "plus_npfloat x y = np_add x y"

definition uminus_npfloat :: "npfloat \<Rightarrow> npfloat" where
  "uminus_npfloat x = np_neg x"

definition minus_npfloat :: "npfloat \<Rightarrow> npfloat \<Rightarrow> npfloat" where
  "minus_npfloat x y = np_add x (np_neg y)"

definition times_npfloat :: "npfloat \<Rightarrow> npfloat \<Rightarrow> npfloat" where
  "times_npfloat x y = np_mul x y"

definition divide_npfloat :: "npfloat \<Rightarrow> npfloat \<Rightarrow> npfloat" where
  "divide_npfloat x y = np_div x y"

definition inverse_npfloat :: "npfloat \<Rightarrow> npfloat" where
  "inverse_npfloat x = np_div (Fin 1) x"

instance ..

end

fun np_gt :: "npfloat \<Rightarrow> npfloat \<Rightarrow> bool" where
  \<comment> \<open>\<open>x > y\<close>: false as soon as one side is \<open>nan\<close>\<close>
  "np_gt NaN y = False"
| "np_gt x NaN = False"
| "np_gt (Fin a) (Fin b) = (b < a)"
| "np_gt PInf PInf = False"
| "np_gt PInf y = True"
| "np_gt x PInf = False"
| "np_gt NInf y = False"
| "np_gt x NInf = True"

fun np_le :: "npfloat \<Rightarrow> npfloat \<Rightarrow> bool" where
  \<comment> \<open>\<open>x <= y\<close>: false as soon as one side is \<open>nan\<close>\<close>
  "np_le NaN y = False"
| "np_le x NaN = False"
| "np_le (Fin a) (Fin b) = (a \<le> b)"
| "np_le NInf y = True"
| "np_le x PInf = True"
| "np_le PInf y = False"
| "np_le x NInf = False"

fun np_log :: "npfloat \<Rightarrow> npfloat" where
  \<comment> \<open>\<open>np.log\<close>\<close>
  "np_log NaN = NaN"
| "np_log NInf = NaN"
| "np_log (Fin a) = (if 0 < a then Fin (ln a) else if a = 0 then NInf else NaN)"
| "np_log PInf = PInf"

fun np_log10 :: "npfloat \<Rightarrow> npfloat" where
  \<comment> \<open>\<open>np.log10\<close>\<close>
  "np_log10 NaN = NaN"
| "np_log10 NInf = NaN"
| "np_log10 (Fin a) = (if 0 < a then Fin (log 10 a) else if a = 0 then NInf else NaN)"
| "np_log10 PInf = PInf"

fun np_sqrt :: "npfloat \<Rightarrow> npfloat" where
  \<comment> \<open>\<open>np.sqrt\<close>\<close>
  "np_sqrt NaN = NaN"
| "np_sqrt NInf = NaN"
| "np_sqrt (Fin a) = (if 0 \<le> a then Fin (sqrt a) else NaN)"
| "np_sqrt PInf = PInf"

section \<open>Deox.py: equilibrium constant and interaction coefficients\<close>

definition logK_Al :: "real \<Rightarrow> error + real" where
  "logK_Al T = bind_err (py_truediv (- 45300) T) (\<lambda>q. Inr (q + 11.62))"

definition e_AlAl :: "real \<Rightarrow> error + real" where
  "e_AlAl T = py_truediv 80.5 T"

definition e_AlO :: "real \<Rightarrow> error + real" where
  "e_AlO T = bind_err (py_truediv 9720 T) (\<lambda>q. Inr (3.21 - q))"

definition e_OAl :: "real \<Rightarrow> error + real" where
  "e_OAl T = bind_err (py_truediv 5750 T) (\<lambda>q. Inr (1.90 - q))"

definition e_OO :: "real \<Rightarrow> error + real" where
  "e_OO T = bind_err (py_truediv 1750 T) (\<lambda>q. Inr (0.76 - q))"

definition r_AlAl :: "real \<Rightarrow> error + real" where
  "r_AlAl T = Inr 0"

definition r_AlO :: "real \<Rightarrow> error + real" where
  "r_AlO T = bind_err (py_truediv 275000 T) (\<lambda>q. Inr (- 107 - q))"

definition r_OAl :: "real \<Rightarrow> error + real" where
  "r_OAl T = bind_err (py_truediv 25 T) (\<lambda>q. Inr (0.0033 - q))"

definition r_OO :: "real \<Rightarrow> error + real" where
  "r_OO T = Inr 0"

definition r_AlAlO :: "real \<Rightarrow> error + real" where
  "r_AlAlO T = bind_err (py_truediv 13.78 T) (\<lambda>q. Inr (- 0.021 - q))"

definition r_OAlO :: "real \<Rightarrow> error + real" where
  "r_OAlO T = bind_err (py_truediv 327300 T) (\<lambda>q. Inr (127.3 + q))"

section \<open>Deox.py: residual, root finder and curve sweep\<close>

text \<open>Python's \<open>str\<close> of an integer and of a list of integers, for the f-strings.\<close>

definition digit_char :: "nat \<Rightarrow> char" where
  "digit_char d = ''0123456789'' ! d"

fun str_nat :: "nat \<Rightarrow> string" where
  "str_nat n = (if n < 10 then [digit_char n] else str_nat (n div 10) @ [digit_char (n mod 10)])"

definition str_int :: "int \<Rightarrow> string" where
  "str_int i = (if i < 0 then CHR ''-'' # str_nat (nat (- i)) else str_nat (nat i))"

fun join_str :: "string \<Rightarrow> string list \<Rightarrow> string" where
  "join_str sep [] = []"
| "join_str sep [s] = s"
| "join_str sep (s # t # ss) = s @ sep @ join_str sep (t # ss)"

definition str_list :: "int list \<Rightarrow> string" where
  "str_list xs = ''['' @ join_str '', '' (map str_int xs) @ '']''"

text \<open>
  \<open>Al_O_eqs(pctO, *params)\<close>. The equilibrium constant and \<open>log10(aAl2O3)\<close> are
  evaluated first, then the chain on \<open>order\<close>; the residual is a NumPy value because
  \<open>np.log10\<close> is.
\<close>

definition Al_O_eqs :: "real \<Rightarrow> real \<times> real \<times> real \<times> int \<Rightarrow> error + npfloat" where
  "Al_O_eqs pctO params =
    (case params of (pctAl, T, aAl2O3, order) \<Rightarrow>
      bind_err (logK_Al T) (\<lambda>log_K.
      let log_aAl2O3 = np_log10 (Fin aAl2O3) in
      bind_err
        (if order = 0 then Inr (0, 0)
         else if order = 1 \<or> order = 2 then
           bind_err (e_AlAl T) (\<lambda>eAlAl.
           bind_err (e_AlO T) (\<lambda>eAlO.
           bind_err (e_OAl T) (\<lambda>eOAl.
           bind_err (e_OO T) (\<lambda>eOO.
           let log_fAl = eAlAl * pctAl + eAlO * pctO;
               log_fO = eOAl * pctAl + eOO * pctO
           in if order = 2 then
                bind_err (r_AlAl T) (\<lambda>rAlAl.
                bind_err (r_AlO T) (\<lambda>rAlO.
                bind_err (r_AlAlO T) (\<lambda>rAlAlO.
                bind_err (r_OAl T) (\<lambda>rOAl.
                bind_err (r_OO T) (\<lambda>rOO.
                bind_err (r_OAlO T) (\<lambda>rOAlO.
                  Inr (log_fAl + (rAlAl * pctAl ^ 2 + rAlO * pctO ^ 2 + rAlAlO * pctAl * pctO),
                       log_fO + (rOAl * pctAl ^ 2 + rOO * pctO ^ 2 + rOAlO * pctAl * pctO))))))))
              else Inr (log_fAl, log_fO)))))
         else
           let valid = [0, 1, 2]
           in Inl (ValueError (''order: '' @ str_int order
                     @ '' is not a valid integer, choose either '' @ str_list valid)))
        (\<lambda>(log_fAl, log_fO).
           Inr (Fin (2 * log_fAl) + Fin 2 * np_log10 (Fin pctAl) + Fin (3 * log_fO)
                + Fin 3 * np_log10 (Fin pctO) - log_aAl2O3 - Fin log_K))))"

text \<open>
  \<open>calc_pure(func, pctMe, T, aInc=1, x0=1e-8, order=2)\<close>. SciPy's \<open>fsolve\<close> is not
  code of the repository: it is a parameter, any function from the objective, the initial
  guess and the extra arguments to the root it reports (a NumPy value) or an error.
\<close>

definition calc_pure ::
  "('f \<Rightarrow> real \<Rightarrow> real \<times> real \<times> real \<times> int \<Rightarrow> error + npfloat)
    \<Rightarrow> 'f \<Rightarrow> real \<Rightarrow> real \<Rightarrow> real \<Rightarrow> real \<Rightarrow> int \<Rightarrow> error + npfloat" where
  "calc_pure fsolve func pctMe T aInc x0 order =
    (let params = (pctMe, T, aInc, order);
         valid = [0, 1, 2]
     in if order \<in> set valid then
          bind_err (fsolve func x0 params) (\<lambda>wO. Inr wO)
        else
          Inl (ValueError (str_int order @ '' is not a valid integer, use either: ''
                 @ str_list valid)))"

text \<open>
  \<open>data_deox(func, T, pcts_M, a_MxOy, x0, order, bound)\<close>: the loop that appends one
  root per aluminium content, then the masked assignment
  \<open>pcts_O[pcts_O > bound] = np.NaN\<close>.
\<close>

fun data_deox_loop ::
  "('f \<Rightarrow> real \<Rightarrow> real \<times> real \<times> real \<times> int \<Rightarrow> error + npfloat)
    \<Rightarrow> 'f \<Rightarrow> real \<Rightarrow> real \<Rightarrow> real \<Rightarrow> int \<Rightarrow> real list \<Rightarrow> npfloat list
    \<Rightarrow> error + npfloat list" where
  "data_deox_loop fsolve func T a_MxOy x0 order [] pcts_O = Inr pcts_O"
| "data_deox_loop fsolve func T a_MxOy x0 order (pct_M # rest) pcts_O =
     bind_err (calc_pure fsolve func pct_M T a_MxOy x0 order) (\<lambda>wO.
       data_deox_loop fsolve func T a_MxOy x0 order rest (pcts_O @ [wO]))"

definition mask_above :: "real \<Rightarrow> npfloat \<Rightarrow> npfloat" where
  \<comment> \<open>one element of \<open>pcts_O[pcts_O > bound] = np.NaN\<close>\<close>
  "mask_above bound v = (if np_gt v (Fin bound) then NaN else v)"

definition data_deox ::
  "('f \<Rightarrow> real \<Rightarrow> real \<times> real \<times> real \<times> int \<Rightarrow> error + npfloat)
    \<Rightarrow> 'f \<Rightarrow> real \<Rightarrow> real list \<Rightarrow> real \<Rightarrow> real \<Rightarrow> int \<Rightarrow> real
    \<Rightarrow> error + real list \<times> npfloat list" where
  "data_deox fsolve func T pcts_M a_MxOy x0 order bound =
    bind_err (data_deox_loop fsolve func T a_MxOy x0 order pcts_M []) (\<lambda>pcts_O.
      Inr (pcts_M, map (mask_above bound) pcts_O))"

section \<open>EVGumbel-ES.py: empirical distribution, estimators, standard error, Gumbel plot\<close>

text \<open>
  The functions read one column of the data frame, \<open>df.Y\<close>, whose entries are the
  measurements: \<open>df\<close> is the list of these numbers, and \<open>len(df)\<close> its length. What
  the functions print is not part of the model.

  NumPy and pandas are not code of the repository. Their functions are written out as
  their documentation gives them: \<open>np.linspace(start, stop, num)\<close> (\<open>num\<close> evenly
  spaced values, both ends included), \<open>Series.sort_values()\<close> (ascending),
  \<open>Series.mean()\<close> (\<open>nan\<close> for no data) and \<open>Series.std()\<close> (normalised by
  \<open>N - 1\<close>, its default \<open>ddof = 1\<close>; \<open>nan\<close> for fewer than two data).
\<close>

definition np_linspace :: "real \<Rightarrow> real \<Rightarrow> nat \<Rightarrow> real list" where
  "np_linspace start stop num =
    (if num = 1 then [start]
     else map (\<lambda>i. start + real i * ((stop - start) / real (num - 1))) [0..<num])"

definition pd_mean :: "real list \<Rightarrow> npfloat" where
  "pd_mean ys = (if ys = [] then NaN else Fin (sum_list ys / real (length ys)))"

definition pd_std :: "real list \<Rightarrow> npfloat" where
  "pd_std ys =
    (if length ys < 2 then NaN
     else let m = sum_list ys / real (length ys)
          in Fin (sqrt (sum_list (map (\<lambda>y. (y - m) ^ 2) ys) / real (length ys - 1))))"

definition eCDF :: "real list \<Rightarrow> real list \<times> real list" where
  \<comment> \<open>the divisor \<open>Nvalues + 1\<close> is never zero, so every entry is a finite number\<close>
  "eCDF df =
    (let Ysorted = sort df;
         Nvalues = length Ysorted;
         ecdf = map (\<lambda>v. v / real (Nvalues + 1)) (np_linspace 1 (real Nvalues) Nvalues)
     in (Ysorted, ecdf))"

definition fitEVmom :: "real list \<Rightarrow> bool \<Rightarrow> error + npfloat \<times> npfloat" where
  "fitEVmom df verbose =
    (let Ymean = pd_mean df;
         Ystd = pd_std df;
         delta = Ystd * np_sqrt (Fin 6) / Fin pi;
         lamb = Ymean - Fin 0.5772 * delta
     in Inr (lamb, delta))"

text \<open>
  \<open>fitEVml\<close> wraps \<open>scipy.stats.gumbel_r.fit\<close>, a parameter of the model: any function
  from the data to a pair (location, scale) or an error.
\<close>

definition fitEVml ::
  "(real list \<Rightarrow> error + npfloat \<times> npfloat) \<Rightarrow> real list \<Rightarrow> bool \<Rightarrow> error + npfloat \<times> npfloat" where
  "fitEVml gumbel_r_fit df verbose =
    bind_err (gumbel_r_fit df) (\<lambda>evDist.
      let delta = snd evDist;
          lamb = fst evDist
      in Inr (lamb, delta))"

text \<open>
  \<open>calcSE\<close> is called on NumPy values (an array of sizes, the fitted parameters), so its
  divisions are NumPy's.
\<close>

definition calcSE :: "npfloat \<Rightarrow> npfloat \<Rightarrow> npfloat \<Rightarrow> nat \<Rightarrow> npfloat" where
  "calcSE x lamb delta N =
    (let y = (x - lamb) / delta;
         SE = delta * np_sqrt ((Fin 1.109 + Fin 0.514 * y + Fin 0.608 * y ^ 2) / Fin (real N))
     in SE)"

definition calcRedVar :: "npfloat \<Rightarrow> npfloat" where
  "calcRedVar F = (let y = Fin (- 1) * np_log (- np_log F) in y)"

text \<open>
  \<open>gumbelPlot(df, gamma=None, delta=None, ax=None)\<close> returns nothing: what it produces
  are the arrays it hands to \<open>ax.plot\<close> and the two parameters it writes on the figure.
  The record holds them. A local variable is \<open>None\<close> while no assignment has bound it;
  the caller's \<open>gamma\<close> and \<open>delta\<close> are \<open>None\<close> when Python's \<open>None\<close> is passed.
  The figure and axes themselves are not modelled.
\<close>

record gumbel_plot =
  drawn_xSorted :: "real list"
  drawn_redVar :: "npfloat list"
  drawn_xML :: "npfloat list"
  drawn_xmin :: "npfloat list"
  drawn_xmax :: "npfloat list"
  shown_lamb :: npfloat
  shown_delta :: npfloat

definition gumbelPlot ::
  "(real list \<Rightarrow> error + npfloat \<times> npfloat) \<Rightarrow> real list \<Rightarrow> real option \<Rightarrow> real option
    \<Rightarrow> error + gumbel_plot" where
  "gumbelPlot gumbel_r_fit df gamma delta =
    (case eCDF df of (xSorted, ecdf) \<Rightarrow>
      let redVar = map (\<lambda>F. Fin (- 1) * np_log (- np_log (Fin F))) ecdf in
      bind_err
        (if gamma = None \<or> delta = None then
           bind_err (fitEVml gumbel_r_fit df True) (\<lambda>(lamb, delta). Inr (Some lamb, Some delta))
         else Inr (None, map_option Fin delta))
        (\<lambda>(lamb_bound, delta_value).
          case delta_value of
            None \<Rightarrow> Inl TypeError
          | Some delta \<Rightarrow>
             (case lamb_bound of
                None \<Rightarrow> Inl (UnboundLocalError ''lamb'')
              | Some lamb \<Rightarrow>
                  let xML = map (\<lambda>y. delta * y + lamb) redVar;
                      N = length df;
                      SE = map (\<lambda>x. calcSE x lamb delta N) xML;
                      xmin = map2 (\<lambda>x se. x - Fin 2 * se) xML SE;
                      xmax = map2 (\<lambda>x se. x + Fin 2 * se) xML SE
                  in Inr \<lparr>drawn_xSorted = xSorted, drawn_redVar = redVar, drawn_xML = xML,
                          drawn_xmin = xmin, drawn_xmax = xmax,
                          shown_lamb = lamb, shown_delta = delta\<rparr>)))"

section \<open>Basic facts about the number model\<close>

lemma bind_err_Inr [simp]: "bind_err (Inr v) k = k v"
  by (simp add: bind_err_def)

lemma bind_err_Inl [simp]: "bind_err (Inl e) k = Inl e"
  by (simp add: bind_err_def)

lemma py_truediv_nonzero [simp]: "b \<noteq> 0 \<Longrightarrow> py_truediv a b = Inr (a / b)"
  by (simp add: py_truediv_def)

lemma py_truediv_zero [simp]: "py_truediv a 0 = Inl ZeroDivisionError"
  by (simp add: py_truediv_def)

declare str_nat.simps [simp del]

lemma Fin_plus [simp]: "Fin a + Fin b = Fin (a + b)"
  by (simp add: plus_npfloat_def)

lemma Fin_minus [simp]: "Fin a - Fin b = Fin (a - b)"
  by (simp add: minus_npfloat_def)

lemma Fin_uminus [simp]: "- Fin a = Fin (- a)"
  by (simp add: uminus_npfloat_def)

lemma Fin_times [simp]: "Fin a * Fin b = Fin (a * b)"
  by (simp add: times_npfloat_def)

lemma Fin_divide [simp]: "b \<noteq> 0 \<Longrightarrow> Fin a / Fin b = Fin (a / b)"
  by (simp add: divide_npfloat_def)

lemma Fin_power [simp]: "Fin a ^ n = Fin (a ^ n)"
  by (induction n) (simp_all add: one_npfloat_def)

lemma NaN_plus [simp]: "NaN + x = NaN" "x + NaN = NaN"
  by (cases x; simp add: plus_npfloat_def)+

lemma NaN_minus [simp]: "NaN - x = NaN" "x - NaN = NaN"
  by (cases x; simp add: minus_npfloat_def)+

lemma NaN_times [simp]: "NaN * x = NaN" "x * NaN = NaN"
  by (cases x; simp add: times_npfloat_def)+

lemma NaN_divide [simp]: "NaN / x = NaN" "x / NaN = NaN"
  by (cases x; simp add: divide_npfloat_def)+

lemma str_list_valid: "str_list [0, 1, 2] = ''[0, 1, 2]''"
  by (simp add: str_list_def str_int_def str_nat.simps digit_char_def)

section \<open>The claims\<close>

text \<open>
  C5. For every temperature \<open>T > 0\<close>, \<open>logK_Al(T)\<close> returns \<open>-45300/T + 11.62\<close>, and
  each of the ten interaction-coefficient functions returns its literature expression,
  which mentions nothing but \<open>T\<close> and literal constants: each is a function of the
  temperature alone, reading and writing no state.
\<close>

theorem coefficient_functions_of_temperature:
  assumes "0 < T"
  shows "logK_Al T = Inr (- 45300 / T + 11.62)
    \<and> e_AlAl T = Inr (80.5 / T)
    \<and> e_AlO T = Inr (3.21 - 9720 / T)
    \<and> e_OAl T = Inr (1.90 - 5750 / T)
    \<and> e_OO T = Inr (0.76 - 1750 / T)
    \<and> r_AlAl T = Inr 0
    \<and> r_AlO T = Inr (- 107 - 2.75 * 10 ^ 5 / T)
    \<and> r_OAl T = Inr (0.0033 - 25 / T)
    \<and> r_OO T = Inr 0
    \<and> r_AlAlO T = Inr (- 0.021 - 13.78 / T)
    \<and> r_OAlO T = Inr (127.3 + 3.273 * 10 ^ 5 / T)"
  using assms
  by (simp add: logK_Al_def e_AlAl_def e_AlO_def e_OAl_def e_OO_def r_AlAl_def r_AlO_def
      r_OAl_def r_OO_def r_AlAlO_def r_OAlO_def)

theorem coefficient_functions_of_temperature_witness:
  "(0::real) < 1873
    \<and> logK_Al 1873 = Inr (- 45300 / 1873 + 11.62)
    \<and> e_AlAl 1873 = Inr (80.5 / 1873)
    \<and> e_AlO 1873 = Inr (3.21 - 9720 / 1873)
    \<and> e_OAl 1873 = Inr (1.90 - 5750 / 1873)
    \<and> e_OO 1873 = Inr (0.76 - 1750 / 1873)
    \<and> r_AlAl 1873 = Inr 0
    \<and> r_AlO 1873 = Inr (- 107 - 2.75 * 10 ^ 5 / 1873)
    \<and> r_OAl 1873 = Inr (0.0033 - 25 / 1873)
    \<and> r_OO 1873 = Inr 0
    \<and> r_AlAlO 1873 = Inr (- 0.021 - 13.78 / 1873)
    \<and> r_OAlO 1873 = Inr (127.3 + 3.273 * 10 ^ 5 / 1873)"
  using coefficient_functions_of_temperature [of 1873] by simp

text \<open>
  C1. For positive \<open>pctAl\<close>, \<open>pctO\<close> and \<open>T\<close> and an alumina activity in \<open>(0, 1]\<close>, the
  residual \<open>Al_O_eqs\<close> at \<open>order = 0\<close> returns
  \<open>2 log10(pctAl) + 3 log10(pctO) - log10(aAl2O3) - logK_Al(T)\<close>: no interaction
  coefficient enters it (\<open>log_fAl = log_fO = 0\<close>).
\<close>

theorem Al_O_eqs_order_0:
  assumes "0 < pctAl" and "0 < pctO" and "0 < T" and "0 < aAl2O3" and "aAl2O3 \<le> 1"
  shows "\<exists>log_K. logK_Al T = Inr log_K
    \<and> Al_O_eqs pctO (pctAl, T, aAl2O3, 0)
        = Inr (Fin (2 * log 10 pctAl + 3 * log 10 pctO - log 10 aAl2O3 - log_K))"
  using assms by (simp add: Al_O_eqs_def logK_Al_def)

theorem Al_O_eqs_order_0_witness:
  "Al_O_eqs (1 / 1000) (1 / 100, 1873, 1, 0)
     = Inr (Fin (2 * log 10 (1 / 100) + 3 * log 10 (1 / 1000) - log 10 1
                 - (- 45300 / 1873 + 11.62)))"
proof -
  obtain log_K where k: "logK_Al 1873 = Inr log_K"
    and eps: "Al_O_eqs (1 / 1000) (1 / 100, 1873, 1, 0)
        = Inr (Fin (2 * log 10 (1 / 100) + 3 * log 10 (1 / 1000) - log 10 1 - log_K))"
    using Al_O_eqs_order_0 [of "1 / 100" "1 / 1000" 1873 1] by auto
  have "logK_Al 1873 = Inr (- 45300 / 1873 + 11.62)"
    by (simp add: logK_Al_def)
  with k have "log_K = - 45300 / 1873 + 11.62"
    by simp
  with eps show ?thesis
    by simp
qed

text \<open>
  C2 (as amended). For every \<open>order\<close> outside \<open>{0, 1, 2}\<close>: \<open>calc_pure\<close> raises its
  validation error, which names the value and the list \<open>[0, 1, 2]\<close>, whatever the solver
  and the other arguments are, so the solver is never called; \<open>Al_O_eqs\<close> evaluates
  \<open>logK_Al(T)\<close> and \<open>log10(aAl2O3)\<close> first, and then raises its validation error, naming
  the value and the list, whenever \<open>T\<close> is not zero; at \<open>T = 0\<close> the division in
  \<open>logK_Al\<close> raises first. In no case does \<open>Al_O_eqs\<close> return a residual.
\<close>

theorem invalid_order_rejected:
  assumes "order \<notin> {0, 1, 2}"
  shows "calc_pure fsolve func pctMe T aInc x0 order
        = Inl (ValueError (str_int order @ '' is not a valid integer, use either: [0, 1, 2]''))
    \<and> (T' \<noteq> 0 \<longrightarrow> Al_O_eqs pctO (pctAl, T', aAl2O3, order)
        = Inl (ValueError (''order: '' @ str_int order
                 @ '' is not a valid integer, choose either [0, 1, 2]'')))
    \<and> (T' = 0 \<longrightarrow> Al_O_eqs pctO (pctAl, T', aAl2O3, order) = Inl ZeroDivisionError)
    \<and> (\<forall>eps. Al_O_eqs pctO (pctAl, T', aAl2O3, order) \<noteq> Inr eps)"
proof -
  from assms have ne: "order \<noteq> 0" "order \<noteq> 1" "order \<noteq> 2"
    by simp_all
  have solver: "calc_pure fsolve func pctMe T aInc x0 order
        = Inl (ValueError (str_int order @ '' is not a valid integer, use either: [0, 1, 2]''))"
    using ne by (simp add: calc_pure_def str_list_valid)
  have zero: "Al_O_eqs pctO (pctAl, 0, aAl2O3, order) = Inl ZeroDivisionError"
    by (simp add: Al_O_eqs_def logK_Al_def)
  have nonzero: "Al_O_eqs pctO (pctAl, T', aAl2O3, order)
        = Inl (ValueError (''order: '' @ str_int order
                 @ '' is not a valid integer, choose either [0, 1, 2]''))" if "T' \<noteq> 0"
    using ne that by (simp add: Al_O_eqs_def logK_Al_def str_list_valid)
  show ?thesis
    using solver zero nonzero by (cases "T' = 0") simp_all
qed

theorem invalid_order_rejected_witness:
  "(3::int) \<notin> {0, 1, 2}
    \<and> calc_pure (\<lambda>func x0 params. Inr (Fin 1)) () 1 1873 1 (1 / 10 ^ 8) 3
        = Inl (ValueError ''3 is not a valid integer, use either: [0, 1, 2]'')
    \<and> Al_O_eqs 1 (1, 1873, 1, 3)
        = Inl (ValueError ''order: 3 is not a valid integer, choose either [0, 1, 2]'')"
  using invalid_order_rejected
    [of 3 "\<lambda>func x0 params. Inr (Fin 1)" "()" 1 1873 1 "1 / 10 ^ 8" 1873 1 1 1]
  by (simp add: str_int_def str_nat.simps digit_char_def)

text \<open>
  The claim as stated fails at a zero temperature: with \<open>order = 3\<close> and \<open>T = 0\<close>,
  \<open>Al_O_eqs\<close> raises \<open>ZeroDivisionError\<close> from \<open>logK_Al\<close>, not the validation error.
\<close>

theorem Al_O_eqs_invalid_order_counterexample:
  "(3::int) \<notin> {0, 1, 2} \<and> Al_O_eqs 1 (1, 0, 1, 3) = Inl ZeroDivisionError"
  by (simp add: Al_O_eqs_def logK_Al_def)

text \<open>Facts about the sweep's loop: what it returns, and that it returns.\<close>

lemma data_deox_loop_Inr:
  "data_deox_loop fsolve func T a x0 order ms acc = Inr os \<Longrightarrow>
    \<exists>ws. os = acc @ ws \<and> list_all2 (\<lambda>m w. calc_pure fsolve func m T a x0 order = Inr w) ms ws"
proof (induction ms arbitrary: acc)
  case Nil
  then show ?case by simp
next
  case (Cons m ms)
  from Cons.prems obtain wO where w: "calc_pure fsolve func m T a x0 order = Inr wO"
    and rest: "data_deox_loop fsolve func T a x0 order ms (acc @ [wO]) = Inr os"
    by (cases "calc_pure fsolve func m T a x0 order") simp_all
  from Cons.IH [OF rest] obtain ws where "os = (acc @ [wO]) @ ws"
    and "list_all2 (\<lambda>m w. calc_pure fsolve func m T a x0 order = Inr w) ms ws"
    by blast
  with w show ?case
    by (intro exI [of _ "wO # ws"]) simp
qed

lemma data_deox_loop_total:
  "\<forall>m\<in>set ms. \<exists>wO. calc_pure fsolve func m T a x0 order = Inr wO \<Longrightarrow>
    \<exists>os. data_deox_loop fsolve func T a x0 order ms acc = Inr os"
proof (induction ms arbitrary: acc)
  case Nil
  then show ?case by simp
next
  case (Cons m ms)
  then obtain wO where "calc_pure fsolve func m T a x0 order = Inr wO"
    by auto
  with Cons show ?case by simp
qed

lemma mask_above_bounded:
  "(mask_above b v = NaN \<or> np_le (mask_above b v) (Fin b)) \<and> \<not> np_gt (mask_above b v) (Fin b)"
  by (cases v) (simp_all add: mask_above_def)

text \<open>
  C3. For every sequence of aluminium contents and every bound \<open>b\<close>, whenever \<open>data_deox\<close>
  returns, it returns the contents unchanged and one oxygen content per aluminium
  content; each is \<open>nan\<close> or at most \<open>b\<close>, none is greater than \<open>b\<close>, and each is the
  root \<open>calc_pure\<close> reported for that content, replaced by \<open>nan\<close> (not by \<open>b\<close>) when the
  root exceeds \<open>b\<close>. It does return whenever every root search returns.
\<close>

theorem data_deox_bounded:
  "(\<forall>ms os. data_deox fsolve func T pcts_M a x0 order bound = Inr (ms, os) \<longrightarrow>
      ms = pcts_M \<and> length os = length pcts_M
      \<and> (\<forall>i<length pcts_M.
            (os ! i = NaN \<or> np_le (os ! i) (Fin bound))
            \<and> \<not> np_gt (os ! i) (Fin bound)
            \<and> (\<exists>wO. calc_pure fsolve func (pcts_M ! i) T a x0 order = Inr wO
                  \<and> os ! i = (if np_gt wO (Fin bound) then NaN else wO))))
   \<and> ((\<forall>m\<in>set pcts_M. \<exists>wO. calc_pure fsolve func m T a x0 order = Inr wO) \<longrightarrow>
        (\<exists>os. data_deox fsolve func T pcts_M a x0 order bound = Inr (pcts_M, os)))"
proof (intro conjI allI impI)
  fix ms os
  assume r: "data_deox fsolve func T pcts_M a x0 order bound = Inr (ms, os)"
  then obtain raw where loop: "data_deox_loop fsolve func T a x0 order pcts_M [] = Inr raw"
    and ms: "ms = pcts_M" and os: "os = map (mask_above bound) raw"
    by (cases "data_deox_loop fsolve func T a x0 order pcts_M []")
      (auto simp add: data_deox_def)
  from data_deox_loop_Inr [OF loop]
  have all: "list_all2 (\<lambda>m w. calc_pure fsolve func m T a x0 order = Inr w) pcts_M raw"
    by simp
  then have len: "length raw = length pcts_M"
    by (simp add: list_all2_lengthD)
  show "ms = pcts_M" by (rule ms)
  show "length os = length pcts_M" using os len by simp
  fix i assume i: "i < length pcts_M"
  with len os have oi: "os ! i = mask_above bound (raw ! i)"
    by simp
  have "calc_pure fsolve func (pcts_M ! i) T a x0 order = Inr (raw ! i)"
    using list_all2_nthD [OF all i] by simp
  then show "\<exists>wO. calc_pure fsolve func (pcts_M ! i) T a x0 order = Inr wO
                  \<and> os ! i = (if np_gt wO (Fin bound) then NaN else wO)"
    using oi by (simp add: mask_above_def)
  show "os ! i = NaN \<or> np_le (os ! i) (Fin bound)"
    using mask_above_bounded [of bound "raw ! i"] oi by simp
  show "\<not> np_gt (os ! i) (Fin bound)"
    using mask_above_bounded [of bound "raw ! i"] oi by simp
next
  assume "\<forall>m\<in>set pcts_M. \<exists>wO. calc_pure fsolve func m T a x0 order = Inr wO"
  from data_deox_loop_total [OF this]
  obtain raw where "data_deox_loop fsolve func T a x0 order pcts_M [] = Inr raw"
    by blast
  then show "\<exists>os. data_deox fsolve func T pcts_M a x0 order bound = Inr (pcts_M, os)"
    by (simp add: data_deox_def)
qed

text \<open>
  A sweep over the contents 1 and 5 with the bound 2, for a solver that reports the
  aluminium content itself as the root: the root 1 is kept, the root 5 becomes \<open>nan\<close>.
\<close>

theorem data_deox_bounded_witness:
  "data_deox (\<lambda>func x0 params. Inr (Fin (fst params))) () 1873 [1, 5] 1 (1 / 10 ^ 8) 2 2
        = Inr ([1, 5], [Fin 1, NaN])
   \<and> np_le (Fin 1) (Fin 2) \<and> \<not> np_gt (Fin 1) (Fin 2) \<and> \<not> np_gt NaN (Fin 2)
   \<and> calc_pure (\<lambda>func x0 params. Inr (Fin (fst params))) () 5 1873 1 (1 / 10 ^ 8) 2 = Inr (Fin 5)
   \<and> np_gt (Fin 5) (Fin 2)"
  using data_deox_bounded
    [of "\<lambda>func x0 params. Inr (Fin (fst params))" "()" 1873 "[1, 5]" 1 "1 / 10 ^ 8" 2 2]
  by (simp add: data_deox_def calc_pure_def mask_above_def)

text \<open>
  C4 (as amended). For every sample with fewer than two measurements, \<open>fitEVmom\<close> raises
  no error: pandas gives \<open>nan\<close> for the standard deviation, and the function returns
  \<open>nan\<close> for both the location and the scale.
\<close>

theorem fitEVmom_insufficient_data:
  assumes "length df \<le> 1"
  shows "fitEVmom df verbose = Inr (NaN, NaN)"
proof -
  from assms have "pd_std df = NaN"
    by (simp add: pd_std_def)
  then show ?thesis
    by (simp add: fitEVmom_def)
qed

theorem fitEVmom_insufficient_data_witness:
  "length ([] :: real list) \<le> 1 \<and> fitEVmom [] True = Inr (NaN, NaN)"
  using fitEVmom_insufficient_data [of "[]" True] by simp

text \<open>
  The claim as stated fails on a sample of one measurement: \<open>fitEVmom\<close> returns, and
  both parameters are \<open>nan\<close>.
\<close>

theorem fitEVmom_single_measurement_counterexample:
  "length [5 :: real] \<le> 1 \<and> fitEVmom [5] True = Inr (NaN, NaN)"
  by (simp add: fitEVmom_def pd_std_def)

text \<open>
  C7. For every sample of at least two measurements, \<open>fitEVmom\<close> returns the scale
  \<open>delta = s * sqrt 6 / pi\<close> and the location \<open>mean - 0.5772 * delta\<close>, where \<open>s\<close> is
  the standard deviation with divisor \<open>N - 1\<close>; the scale is positive whenever \<open>s\<close> is.
\<close>

theorem fitEVmom_moments:
  assumes "2 \<le> length df"
  shows "let mean = sum_list df / real (length df);
             s = sqrt (sum_list (map (\<lambda>y. (y - mean) ^ 2) df) / real (length df - 1));
             delta = s * sqrt 6 / pi
         in fitEVmom df verbose = Inr (Fin (mean - 0.5772 * delta), Fin delta)
            \<and> (0 < s \<longrightarrow> 0 < delta)"
proof -
  from assms have ne: "df \<noteq> []" and two: "\<not> length df < 2"
    by auto
  show ?thesis
    using ne two by (simp add: fitEVmom_def pd_mean_def pd_std_def Let_def)
qed

theorem fitEVmom_moments_witness:
  "2 \<le> length [1, 3 :: real]
   \<and> fitEVmom [1, 3] True
       = Inr (Fin (2 - 0.5772 * (sqrt 2 * sqrt 6 / pi)), Fin (sqrt 2 * sqrt 6 / pi))
   \<and> 0 < sqrt 2 * sqrt 6 / pi"
  using fitEVmom_moments [of "[1, 3]" True] by (simp add: Let_def)

text \<open>
  \<open>np.linspace(1, N, N)\<close> is the list of the ranks \<open>1, ..., N\<close>, so \<open>eCDF\<close> pairs the
  sorted measurements with \<open>i / (N + 1)\<close>.
\<close>

lemma np_linspace_ranks: "np_linspace 1 (real N) N = map (\<lambda>i. real (i + 1)) [0..<N]"
proof (cases "N = 1")
  case True
  then show ?thesis by (simp add: np_linspace_def)
next
  case False
  have "1 + real i * ((real N - 1) / real (N - 1)) = real (i + 1)" if "i < N" for i
  proof -
    from that False have "2 \<le> N" by simp
    then have "real (N - 1) = real N - 1" and "real N - 1 \<noteq> 0"
      by (simp_all add: of_nat_diff)
    then show ?thesis by simp
  qed
  with False show ?thesis
    by (simp add: np_linspace_def)
qed

lemma eCDF_eq:
  "eCDF df = (sort df, map (\<lambda>i. real (i + 1) / real (length df + 1)) [0..<length df])"
  by (simp add: eCDF_def np_linspace_ranks Let_def comp_def)

text \<open>
  C6. For every non-empty sample of \<open>N\<close> measurements, \<open>eCDF\<close> returns the
  measurements sorted ascending (the same measurements, reordered) together with \<open>N\<close>
  probabilities, the \<open>i\<close>-th of them (counting from 1) being \<open>i / (N + 1)\<close>; every one
  lies strictly between 0 and 1, they increase strictly, and the last is
  \<open>N / (N + 1) < 1\<close>. Lists are indexed from 0, so index \<open>i\<close> holds rank \<open>i + 1\<close>.
\<close>

theorem eCDF_plotting_positions:
  assumes "df \<noteq> []"
  shows "sorted (fst (eCDF df)) \<and> mset (fst (eCDF df)) = mset df
    \<and> length (snd (eCDF df)) = length df
    \<and> (\<forall>i<length df. snd (eCDF df) ! i = real (i + 1) / real (length df + 1)
          \<and> 0 < snd (eCDF df) ! i \<and> snd (eCDF df) ! i < 1)
    \<and> (\<forall>i j. i < j \<and> j < length df \<longrightarrow> snd (eCDF df) ! i < snd (eCDF df) ! j)
    \<and> last (snd (eCDF df)) = real (length df) / real (length df + 1)
    \<and> real (length df) / real (length df + 1) < 1"
proof -
  let ?N = "length df"
  let ?P = "map (\<lambda>i. real (i + 1) / real (?N + 1)) [0..<?N]"
  from assms have pos: "0 < ?N" by simp
  have snd_eq: "snd (eCDF df) = ?P" and fst_eq: "fst (eCDF df) = sort df"
    by (simp_all add: eCDF_eq)
  have len: "length ?P = ?N"
    by simp
  have nth: "?P ! i = real (i + 1) / real (?N + 1) \<and> 0 < ?P ! i \<and> ?P ! i < 1"
    if "i < ?N" for i
    using that by simp
  have mono: "?P ! i < ?P ! j" if "i < j \<and> j < ?N" for i j
    using that by (simp add: divide_strict_right_mono)
  have last_eq: "last ?P = real ?N / real (?N + 1)"
  proof -
    from pos have ne: "[0..<?N] \<noteq> []"
      by simp
    have "last ?P = real (last [0..<?N] + 1) / real (?N + 1)"
      by (rule last_map [OF ne])
    also from pos have "last [0..<?N] + 1 = ?N"
      by simp
    finally show ?thesis .
  qed
  have below: "real ?N / real (?N + 1) < 1"
    by simp
  have srt: "sorted (sort df) \<and> mset (sort df) = mset df"
    by simp
  show ?thesis
    unfolding snd_eq fst_eq
    using srt len nth mono last_eq below by blast
qed

theorem eCDF_plotting_positions_witness:
  "[3, 1, 2 :: real] \<noteq> []
    \<and> eCDF [3, 1, 2] = ([1, 2, 3], [1 / 4, 1 / 2, 3 / 4])
    \<and> sorted (fst (eCDF [3, 1, 2 :: real]))
    \<and> snd (eCDF [3, 1, 2]) ! 0 < snd (eCDF [3, 1, 2]) ! 1
    \<and> last (snd (eCDF [3, 1, 2])) = 3 / 4"
  using eCDF_plotting_positions [of "[3, 1, 2]"]
  by (simp add: eCDF_eq upt_rec)

text \<open>
  The quadratic under the square root is positive for every reduced variable, so the
  standard error of finite arguments is a finite number.
\<close>

lemma se_quadratic_pos: "0 < 1.109 + 0.514 * y + 0.608 * y ^ 2" for y :: real
proof -
  have "1.109 + 0.514 * y + 0.608 * y ^ 2
      = 0.608 * (y + 257 / 608) ^ 2 + (1.109 - 0.608 * (257 / 608) ^ 2)"
    by (simp add: power2_eq_square algebra_simps)
  moreover have "0 \<le> 0.608 * (y + 257 / 608) ^ 2"
    by simp
  moreover have "(0::real) < 1.109 - 0.608 * (257 / 608) ^ 2"
    by (simp add: power2_eq_square)
  ultimately show ?thesis
    by linarith
qed

lemma calcSE_Fin:
  assumes "delta \<noteq> 0" and "1 \<le> N"
  shows "calcSE (Fin x) (Fin lamb) (Fin delta) N
       = Fin (delta * sqrt ((1.109 + 0.514 * ((x - lamb) / delta)
                              + 0.608 * ((x - lamb) / delta) ^ 2) / real N))"
proof -
  let ?y = "(x - lamb) / delta"
  from assms(2) have N: "real N \<noteq> 0" "0 < real N"
    by simp_all
  have "0 \<le> (1.109 + 0.514 * ?y + 0.608 * ?y ^ 2) / real N"
    using se_quadratic_pos [of ?y] N by simp
  then show ?thesis
    using assms(1) N by (simp add: calcSE_def Let_def)
qed

text \<open>
  C8. For every \<open>x\<close> and \<open>lambda\<close>, every \<open>delta > 0\<close> and every \<open>N \<ge> 1\<close>, \<open>calcSE\<close>
  returns \<open>delta * sqrt ((1.109 + 0.514 y + 0.608 y\<^sup>2) / N)\<close> with
  \<open>y = (x - lambda) / delta\<close>; at \<open>x = lambda\<close> it returns \<open>delta * sqrt (1.109 / N)\<close>.
\<close>

theorem calcSE_formula:
  assumes "0 < delta" and "1 \<le> N"
  shows "calcSE (Fin x) (Fin lamb) (Fin delta) N
       = Fin (delta * sqrt ((1.109 + 0.514 * ((x - lamb) / delta)
                              + 0.608 * ((x - lamb) / delta) ^ 2) / real N))
    \<and> calcSE (Fin lamb) (Fin lamb) (Fin delta) N = Fin (delta * sqrt (1.109 / real N))"
proof -
  from assms have d: "delta \<noteq> 0"
    by simp
  show ?thesis
    using calcSE_Fin [OF d assms(2), of x lamb] calcSE_Fin [OF d assms(2), of lamb lamb]
    by simp
qed

theorem calcSE_formula_witness:
  "(0::real) < 2 \<and> (1::nat) \<le> 4
    \<and> calcSE (Fin 5) (Fin 3) (Fin 2) 4
       = Fin (2 * sqrt ((1.109 + 0.514 * ((5 - 3) / 2) + 0.608 * ((5 - 3) / 2) ^ 2) / 4))
    \<and> calcSE (Fin 3) (Fin 3) (Fin 2) 4 = Fin (2 * sqrt (1.109 / 4))"
  using calcSE_formula [of 2 4 5 3] by simp

text \<open>
  Every empirical probability lies strictly between 0 and 1, so the reduced variable
  \<open>-ln(-ln(P))\<close> of each sample point is a finite number.
\<close>

lemma redVar_Fin:
  assumes "0 < P" and "P < 1"
  shows "Fin (- 1) * np_log (- np_log (Fin P)) = Fin (- ln (- ln P))"
proof -
  from assms have "ln P < 0"
    by simp
  then have "0 < - ln P"
    by simp
  with assms(1) show ?thesis
    by simp
qed

lemma eCDF_nth_bounds:
  assumes "i < length df"
  shows "0 < snd (eCDF df) ! i \<and> snd (eCDF df) ! i < 1"
  using assms by (simp add: eCDF_eq)

text \<open>
  The geometry on the path that fits: when \<open>gamma\<close> or \<open>delta\<close> is left out and the
  maximum-likelihood fit returns the numbers \<open>(lambda, delta)\<close>, \<open>gumbelPlot\<close> returns
  and draws, for each of the \<open>N\<close> sample points with empirical probability \<open>P\<close>: the
  reduced variable \<open>y = -ln(-ln(P))\<close> (the value of \<open>calcRedVar\<close>), the value
  \<open>x_fit = delta * y + lambda\<close>, and the band endpoints \<open>x_fit - 2 SE\<close> and
  \<open>x_fit + 2 SE\<close>, where \<open>SE\<close> is \<open>calcSE\<close> at \<open>x_fit\<close>; for a non-zero \<open>delta\<close> this is
  the standard error at that \<open>y\<close>. This is the only path on which a geometry is computed.
\<close>

lemma gumbelPlot_geometry_of_fit:
  assumes "gamma = None \<or> delta = None"
    and "gumbel_r_fit df = Inr (Fin lam, Fin del)"
  shows "\<exists>plot. gumbelPlot gumbel_r_fit df gamma delta = Inr plot
    \<and> drawn_xSorted plot = fst (eCDF df)
    \<and> length (drawn_redVar plot) = length df
    \<and> length (drawn_xML plot) = length df
    \<and> length (drawn_xmin plot) = length df
    \<and> length (drawn_xmax plot) = length df
    \<and> (\<forall>i<length df.
          let P = snd (eCDF df) ! i;
              y = - ln (- ln P);
              x_fit = del * y + lam;
              SE = calcSE (Fin x_fit) (Fin lam) (Fin del) (length df)
          in drawn_redVar plot ! i = Fin y
             \<and> calcRedVar (Fin P) = Fin y
             \<and> drawn_xML plot ! i = Fin x_fit
             \<and> drawn_xmin plot ! i = Fin x_fit - Fin 2 * SE
             \<and> drawn_xmax plot ! i = Fin x_fit + Fin 2 * SE
             \<and> (del \<noteq> 0 \<longrightarrow>
                  SE = Fin (del * sqrt ((1.109 + 0.514 * y + 0.608 * y ^ 2) / real (length df)))))"
proof -
  let ?ps = "snd (eCDF df)"
  let ?N = "length df"
  let ?rv = "\<lambda>F. Fin (- 1) * np_log (- np_log (Fin F))"
  let ?redVar = "map ?rv ?ps"
  let ?xML = "map (\<lambda>y. Fin del * y + Fin lam) ?redVar"
  let ?SE = "map (\<lambda>x. calcSE x (Fin lam) (Fin del) ?N) ?xML"
  let ?plot = "\<lparr>drawn_xSorted = fst (eCDF df), drawn_redVar = ?redVar, drawn_xML = ?xML,
      drawn_xmin = map2 (\<lambda>x se. x - Fin 2 * se) ?xML ?SE,
      drawn_xmax = map2 (\<lambda>x se. x + Fin 2 * se) ?xML ?SE,
      shown_lamb = Fin lam, shown_delta = Fin del\<rparr>"
  have run: "gumbelPlot gumbel_r_fit df gamma delta = Inr ?plot"
    using assms
    by (cases "eCDF df")
      (simp add: gumbelPlot_def fitEVml_def Let_def del: map_map np_log.simps)
  have len: "length ?ps = ?N"
    by (simp add: eCDF_eq)
  have point: "let P = ?ps ! i;
              y = - ln (- ln P);
              x_fit = del * y + lam;
              SE = calcSE (Fin x_fit) (Fin lam) (Fin del) ?N
          in drawn_redVar ?plot ! i = Fin y
             \<and> calcRedVar (Fin P) = Fin y
             \<and> drawn_xML ?plot ! i = Fin x_fit
             \<and> drawn_xmin ?plot ! i = Fin x_fit - Fin 2 * SE
             \<and> drawn_xmax ?plot ! i = Fin x_fit + Fin 2 * SE
             \<and> (del \<noteq> 0 \<longrightarrow>
                  SE = Fin (del * sqrt ((1.109 + 0.514 * y + 0.608 * y ^ 2) / real ?N)))"
    if i: "i < ?N" for i
  proof -
    let ?y = "- ln (- ln (?ps ! i))"
    from eCDF_nth_bounds [OF i] have rv: "?rv (?ps ! i) = Fin ?y"
      by (simp only: redVar_Fin)
    from i len have r: "?redVar ! i = Fin ?y"
      using rv by simp
    from i len have x: "?xML ! i = Fin (del * ?y + lam)"
      using rv by simp
    from i len have s: "?SE ! i = calcSE (Fin (del * ?y + lam)) (Fin lam) (Fin del) ?N"
      using rv by simp
    have se: "calcSE (Fin (del * ?y + lam)) (Fin lam) (Fin del) ?N
        = Fin (del * sqrt ((1.109 + 0.514 * ?y + 0.608 * ?y ^ 2) / real ?N))" if "del \<noteq> 0"
    proof -
      from i have "1 \<le> ?N" by simp
      from calcSE_Fin [OF that this, of "del * ?y + lam" lam] that show ?thesis
        by simp
    qed
    have c: "calcRedVar (Fin (?ps ! i)) = Fin ?y"
      using rv by (simp add: calcRedVar_def)
    from i len have mn: "drawn_xmin ?plot ! i = ?xML ! i - Fin 2 * ?SE ! i"
      and mx: "drawn_xmax ?plot ! i = ?xML ! i + Fin 2 * ?SE ! i"
      by simp_all
    show ?thesis
      unfolding Let_def using r c x s se mn mx by simp
  qed
  have "drawn_xSorted ?plot = fst (eCDF df)
    \<and> length (drawn_redVar ?plot) = ?N
    \<and> length (drawn_xML ?plot) = ?N
    \<and> length (drawn_xmin ?plot) = ?N
    \<and> length (drawn_xmax ?plot) = ?N"
    using len by simp
  with run point show ?thesis
    by blast
qed


text \<open>
  C9. The claim is that for every sample and fitted parameters \<open>(lambda, delta)\<close> the
  builder produces the reduced variable, the value \<open>delta * y + lambda\<close> and the band
  endpoints of every sample point. Given the fitted parameters, as its arguments \<open>gamma\<close>
  and \<open>delta\<close>, \<open>gumbelPlot\<close> produces nothing: the branch that binds \<open>lamb\<close> is skipped,
  \<open>gamma\<close> is never read, and \<open>xML = delta*redVar + lamb\<close> raises \<open>UnboundLocalError\<close>.
  Here on the first three measurements of the notebook's sample, with the parameters
  \<open>(45, 12)\<close>, whatever the fitting routine is.
\<close>

theorem gumbelPlot_supplied_parameters_fail:
  "gumbelPlot gumbel_r_fit [40.29, 37.24, 29.03] (Some 45) (Some 12)
     = Inl (UnboundLocalError ''lamb'')"
  by (simp add: gumbelPlot_def split: prod.splits)

text \<open>
  C10. Whenever both \<open>gamma\<close> and \<open>delta\<close> are supplied, \<open>gumbelPlot\<close> fails with
  \<open>UnboundLocalError\<close> for the local variable \<open>lamb\<close>, whatever the fitting routine would
  return (it is not called); and the result of \<open>gumbelPlot\<close> never depends on the value
  of a supplied \<open>gamma\<close>.
\<close>

theorem gumbelPlot_unbound_lamb:
  "gumbelPlot gumbel_r_fit df (Some gamma) (Some delta) = Inl (UnboundLocalError ''lamb'')
   \<and> gumbelPlot gumbel_r_fit df (Some gamma) delta' = gumbelPlot gumbel_r_fit df (Some gamma') delta'"
  by (simp add: gumbelPlot_def split: prod.splits)

theorem gumbelPlot_unbound_lamb_witness:
  "gumbelPlot (\<lambda>df. Inr (Fin 50, Fin 10)) [3, 1, 2] (Some 50) (Some 10)
     = Inl (UnboundLocalError ''lamb'')"
  using gumbelPlot_unbound_lamb [of "\<lambda>df. Inr (Fin 50, Fin 10)" "[3, 1, 2]" 50 10 None 50]
  by simp

end
